theory Spec2Isabelle
  imports Main
begin

section \<open>Python values\<close>

text \<open>
  A Python \<open>str\<close> is modelled as a \<open>string\<close>: one \<open>char\<close> per code point, for the
  code points below 256 (ASCII and Latin-1, which covers the German messages of the
  program). An uploaded clip is a list of bytes.
\<close>

type_synonym path = string
type_synonym bytes = "nat list"

text \<open>
  An exception is a value: the name of its class (what \<open>type(e).__name__\<close> gives) and its
  message (what \<open>str(e)\<close> and the \<open>{e}\<close> of an f-string give). \<open>raise\<close> is \<open>Inl\<close>.
  Every exception of the model is an instance of \<open>Exception\<close>, so that \<open>except Exception\<close>
  catches it; \<open>KeyboardInterrupt\<close>, \<open>SystemExit\<close> and the cancellation of the request are
  not modelled.
\<close>

datatype exn = Exn (exn_type: string) (exn_msg: string)

definition Exception :: "string \<Rightarrow> exn" where
  "Exception m = Exn ''Exception'' m"

text \<open>\<open>isinstance(e, ImportError)\<close>: the class itself or its built-in subclass.\<close>

definition is_ImportError :: "exn \<Rightarrow> bool" where
  "is_ImportError e = (exn_type e \<in> set [''ImportError'', ''ModuleNotFoundError''])"

text \<open>
  \<open>str.isspace\<close> on a code point below 256, and \<open>str.strip()\<close> with no argument.
\<close>

definition py_isspace :: "char \<Rightarrow> bool" where
  "py_isspace c = ((of_char c :: nat) \<in> set [9, 10, 11, 12, 13, 28, 29, 30, 31, 32, 133, 160])"

definition py_strip :: "string \<Rightarrow> string" where
  "py_strip s = rev (dropWhile py_isspace (rev (dropWhile py_isspace s)))"

text \<open>\<open>str(n)\<close> for a non-negative integer: its decimal digits.\<close>

definition digit_char :: "nat \<Rightarrow> char" where
  "digit_char d = char_of (48 + d)"

function show_nat :: "nat \<Rightarrow> string" where
  "show_nat n = (if n < 10 then [digit_char n] else show_nat (n div 10) @ [digit_char (n mod 10)])"
  by pat_completeness auto
termination
  by (relation "measure (\<lambda>n. n)") auto

declare show_nat.simps [simp del]

text \<open>\<open>{x}\<close> in an f-string, for a value that is a string or \<open>None\<close>.\<close>

definition fmt_opt :: "string option \<Rightarrow> string" where
  "fmt_opt x = (case x of None \<Rightarrow> ''None'' | Some s \<Rightarrow> s)"

section \<open>The environment of one request\<close>

text \<open>
  Everything the program calls and does not define is part of the environment: the
  outcome of each such call is a field of \<open>env\<close>, an exception (\<open>Inl e\<close> or \<open>Some e\<close>) or
  a result. The calls that can fail are: creating, filling and closing the scratch file,
  the Whisper library, reading the system prompt, the HTTP request to Ollama, creating
  the audio directory, the two speech engines and the append to the history file.
  Removing the scratch file the request has just created, testing that a file exists,
  reading the clock and \<open>print\<close> do not fail.
\<close>

record whisper_result =
  result_text :: string
  result_language :: "string option"

text \<open>
  What \<open>response.json()\<close>, \<open>"response" in result\<close> and \<open>result["response"].strip()\<close>
  need of the parsed body: the entry under the key \<open>response\<close> (absent, a string, or a
  value whose \<open>strip\<close> raises) and the text of \<open>{result}\<close> in an f-string.
\<close>

datatype json_field = Absent | JStr string | NotStr exn

record json_result =
  response_field :: json_field
  result_repr :: string

record http_response =
  status_code :: nat
  response_text :: string
  response_json :: "exn + json_result"

record payload =
  payload_model :: string
  payload_prompt :: string
  payload_stream :: bool

record conversation =
  timestamp :: string
  conv_topic :: string
  conv_user_text :: string
  conv_reply_text :: string
  tts_file :: "string option"

record env =
  NamedTemporaryFile :: "exn + path"
  audio_read :: "exn option"
  temp_audio_write :: "exn option"
  whisper_import :: "exn option"
  whisper_load_model :: "exn option"
  whisper_transcribe :: "bytes \<Rightarrow> exn + whisper_result"
  system_prompt_file :: "(exn + string) option"
  requests_post :: "string \<Rightarrow> payload \<Rightarrow> nat \<Rightarrow> exn + http_response"
  mkdir_audio_dir :: "exn option"
  PYTTSX3_AVAILABLE :: bool
  EDGE_TTS_AVAILABLE :: bool
  pyttsx3_save :: "nat \<Rightarrow> exn option"
  edge_tts_save :: "exn option"
  now_strftime :: string
  now_isoformat :: string
  json_dumps :: "conversation \<Rightarrow> string"
  history_write :: "exn option"

text \<open>
  \<open>NamedTemporaryFile\<close> is the path of the new scratch file, \<open>audio_read\<close> the failure of
  \<open>await audio.read()\<close> if any, \<open>temp_audio_write\<close> that of writing and closing the file.
  \<open>system_prompt_file\<close> is \<open>None\<close> when \<open>backend/prompts/system_prompt.txt\<close> does not exist,
  and otherwise what opening and reading it gives, its text or an exception.
  \<open>mkdir_audio_dir\<close> is the failure, if any, of
  \<open>Path(output_path).parent.mkdir(parents=True, exist_ok=True)\<close>.
  \<open>pyttsx3_save env k\<close> is the outcome of the call of \<open>_pyttsx3_save\<close> that \<open>k\<close> calls of
  it precede in this request. \<open>now_strftime\<close> and \<open>now_isoformat\<close> are the two readings of
  the clock, formatted. \<open>json_dumps\<close> is \<open>json.dumps(_, ensure_ascii=False)\<close>.
\<close>

section \<open>whisper\_service.py\<close>

definition transcribe_with_library_try :: "env \<Rightarrow> (path \<rightharpoonup> bytes) \<Rightarrow> path \<Rightarrow> exn + string" where
  "transcribe_with_library_try env fs audio_file_path =
     (case whisper_import env of
        Some e \<Rightarrow> Inl e
      | None \<Rightarrow>
          (case fs audio_file_path of
             None \<Rightarrow> Inl (Exception (''Audio file not found: '' @ audio_file_path))
           | Some content \<Rightarrow>
               if length content = 0 then Inl (Exception ''Audio file is empty'')
               else
                 (case whisper_load_model env of
                    Some e \<Rightarrow> Inl e
                  | None \<Rightarrow>
                      (case whisper_transcribe env content of
                         Inl e \<Rightarrow> Inl e
                       | Inr result \<Rightarrow>
                           let transcribed_text = py_strip (result_text result) in
                           if transcribed_text = [] then Inr ''[Kein Audio erkannt]''
                           else Inr transcribed_text))))"

text \<open>The two \<open>except\<close> clauses of \<open>_transcribe_with_library\<close>, in the source's order.\<close>

definition transcribe_with_library :: "env \<Rightarrow> (path \<rightharpoonup> bytes) \<Rightarrow> path \<Rightarrow> string \<Rightarrow> exn + string" where
  "transcribe_with_library env fs audio_file_path model_size =
     (case transcribe_with_library_try env fs audio_file_path of
        Inr r \<Rightarrow> Inr r
      | Inl e \<Rightarrow>
          if is_ImportError e
          then Inl (Exception (''Cannot import whisper library: '' @ exn_msg e))
          else Inl (Exception (''Library transcription error: '' @ exn_msg e)))"

definition transcribe_audio :: "env \<Rightarrow> (path \<rightharpoonup> bytes) \<Rightarrow> path \<Rightarrow> exn + string" where
  "transcribe_audio env fs audio_file_path =
     (case transcribe_with_library env fs audio_file_path ''tiny'' of
        Inr result \<Rightarrow> if result \<noteq> [] then Inr result else Inr []
      | Inl lib_error \<Rightarrow> Inr [])"

section \<open>ollama\_client.py\<close>

text \<open>
  The classes of \<open>requests.exceptions\<close> that \<open>ask_ollama\<close> names, with their subclasses.
\<close>

definition is_ConnectionError :: "exn \<Rightarrow> bool" where
  "is_ConnectionError e =
     (exn_type e \<in> set [''ConnectionError'', ''ProxyError'', ''SSLError'', ''ConnectTimeout''])"

definition is_Timeout :: "exn \<Rightarrow> bool" where
  "is_Timeout e = (exn_type e \<in> set [''Timeout'', ''ConnectTimeout'', ''ReadTimeout''])"

definition ask_ollama_try :: "env \<Rightarrow> string \<Rightarrow> string \<Rightarrow> string \<Rightarrow> nat \<Rightarrow> exn + string" where
  "ask_ollama_try env prompt model base_url timeout =
     (let url = base_url @ ''/api/generate'';
          payload = \<lparr>payload_model = model, payload_prompt = prompt, payload_stream = False\<rparr>
      in case requests_post env url payload timeout of
           Inl e \<Rightarrow> Inl e
         | Inr response \<Rightarrow>
             if status_code response \<noteq> 200
             then Inl (Exception (''Ollama API error: '' @ show_nat (status_code response)
                                   @ '' - '' @ response_text response))
             else
               (case response_json response of
                  Inl e \<Rightarrow> Inl e
                | Inr result \<Rightarrow>
                    (case response_field result of
                       Absent \<Rightarrow> Inl (Exception (''Invalid response format: '' @ result_repr result))
                     | NotStr e \<Rightarrow> Inl e
                     | JStr s \<Rightarrow> Inr (py_strip s))))"

text \<open>The three \<open>except\<close> clauses of \<open>ask_ollama\<close>, in the source's order.\<close>

definition ask_ollama :: "env \<Rightarrow> string \<Rightarrow> string \<Rightarrow> string \<Rightarrow> nat \<Rightarrow> exn + string" where
  "ask_ollama env prompt model base_url timeout =
     (case ask_ollama_try env prompt model base_url timeout of
        Inr r \<Rightarrow> Inr r
      | Inl e \<Rightarrow>
          if is_ConnectionError e
          then Inl (Exception
                 ''Cannot connect to Ollama. Make sure Ollama is running on localhost:11434'')
          else if is_Timeout e
          then Inl (Exception
                 ''Ollama request timed out. Try a shorter prompt or different model.'')
          else Inl (Exception (''Ollama client error: '' @ exn_msg e)))"

section \<open>tts\_service.py\<close>

text \<open>
  \<open>save_tts_audio\<close> returns \<open>None\<close> or raises; the model also returns the engines it has
  called, in order.
\<close>

datatype backend = Offline | Networked

definition offline_calls :: "backend list \<Rightarrow> nat" where
  "offline_calls calls = length (filter (\<lambda>b. b = Offline) calls)"

text \<open>
  The second \<open>if\<close> of \<open>save_tts_audio\<close> (\<open>if EDGE_TTS_AVAILABLE: ... elif ... else\<close>),
  after the calls already made. \<open>save_tts_audio\<close> itself starts by creating the directory
  of \<open>output_path\<close>, line 64, outside any \<open>try\<close>.
\<close>

definition save_tts_online :: "env \<Rightarrow> backend list \<Rightarrow> backend list \<times> exn option" where
  "save_tts_online env calls =
     (if EDGE_TTS_AVAILABLE env then
        (case edge_tts_save env of
           None \<Rightarrow> (calls @ [Networked], None)
         | Some e \<Rightarrow>
             if PYTTSX3_AVAILABLE env
             then (calls @ [Networked, Offline], pyttsx3_save env (offline_calls calls))
             else (calls @ [Networked], Some e))
      else if PYTTSX3_AVAILABLE env
      then (calls @ [Offline], pyttsx3_save env (offline_calls calls))
      else (calls, Some (Exception ''No TTS engine available'')))"

definition save_tts_audio ::
  "env \<Rightarrow> string \<Rightarrow> string \<Rightarrow> string \<Rightarrow> bool \<Rightarrow> backend list \<times> exn option" where
  "save_tts_audio env txt output_path voice prefer_offline =
     (case mkdir_audio_dir env of
        Some e \<Rightarrow> ([], Some e)
      | None \<Rightarrow>
          if prefer_offline \<and> PYTTSX3_AVAILABLE env then
            (case pyttsx3_save env 0 of
               None \<Rightarrow> ([Offline], None)
             | Some e \<Rightarrow> save_tts_online env [Offline])
          else save_tts_online env [])"

section \<open>app.py\<close>

text \<open>
  The state a request changes: the files of the scratch directory, the text of
  \<open>data/history/conversations.jsonl\<close> as Python reads it, every line ending in a newline
  character (\<open>None\<close> while the file does not exist), and the lines that \<open>voice_chat\<close>
  itself prints (the formatted traceback goes to the standard
  error stream and is left out).
\<close>

record world =
  files :: "path \<rightharpoonup> bytes"
  history :: "string option"
  stdout :: "string list"

record request =
  filename :: "string option"
  content :: bytes
  topic :: string

datatype body =
    ErrorBody (error: string)
  | ChatBody (user_text: string) (reply_text: string) (tts_url: "string option") (body_topic: string)

datatype response = Response (status: nat) (body: body)

text \<open>
  The three services as \<open>voice_chat\<close> calls them, so that the handler can be run with
  the modules above or with any stand-in for them.
\<close>

record services =
  transcribe :: "(path \<rightharpoonup> bytes) \<Rightarrow> path \<Rightarrow> exn + string"
  ask :: "string \<Rightarrow> exn + string"
  save_tts :: "string \<Rightarrow> string \<Rightarrow> exn option"

definition say :: "string \<Rightarrow> world \<Rightarrow> world" where
  "say line w = w\<lparr>stdout := stdout w @ [line]\<rparr>"

definition unlink :: "path \<Rightarrow> world \<Rightarrow> world" where
  "unlink p w = w\<lparr>files := (files w)(p := None)\<rparr>"

text \<open>
  Lines 26 to 29: \<open>NamedTemporaryFile(delete=False)\<close> creates the file at once, and leaving
  the \<open>with\<close> block closes it without removing it.
\<close>

definition save_upload :: "env \<Rightarrow> request \<Rightarrow> world \<Rightarrow> world \<times> (exn + path)" where
  "save_upload env req w =
     (case NamedTemporaryFile env of
        Inl e \<Rightarrow> (w, Inl e)
      | Inr name \<Rightarrow>
          let w1 = w\<lparr>files := (files w)(name \<mapsto> [])\<rparr> in
          (case audio_read env of
             Some e \<Rightarrow> (w1, Inl e)
           | None \<Rightarrow>
               (case temp_audio_write env of
                  Some e \<Rightarrow> (w1, Inl e)
                | None \<Rightarrow> (w1\<lparr>files := (files w1)(name \<mapsto> content req)\<rparr>, Inr name))))"

definition default_system_prompt :: string where
  "default_system_prompt = ''You are a helpful German tutor. Respond in German.''"

text \<open>Line 62, the f-string of the prompt.\<close>

definition format_prompt :: "string \<Rightarrow> string \<Rightarrow> string \<Rightarrow> string" where
  "format_prompt system_prompt tpc user_txt =
     system_prompt @ [CHR 0x0A, CHR 0x0A] @ ''Topic: '' @ tpc @ [CHR 0x0A]
     @ ''User: '' @ user_txt @ [CHR 0x0A] @ ''Tutor:''"

text \<open>
  Lines 54 to 62. The file is read outside any inner \<open>try\<close>: an exception of \<open>open\<close> or
  \<open>read\<close> goes to the outer \<open>except\<close> of the handler.
\<close>

definition build_prompt :: "env \<Rightarrow> string \<Rightarrow> string \<Rightarrow> exn + string" where
  "build_prompt env tpc user_txt =
     (case system_prompt_file env of
        Some (Inl e) \<Rightarrow> Inl e
      | Some (Inr system_prompt) \<Rightarrow> Inr (format_prompt system_prompt tpc user_txt)
      | None \<Rightarrow> Inr (format_prompt default_system_prompt tpc user_txt))"

definition fallback_reply :: "string \<Rightarrow> string" where
  "fallback_reply user_txt =
     ''Ich habe verstanden: '' @ [CHR 0x27] @ user_txt @ [CHR 0x27]
     @ ''. Das ist interessant! (Ollama ist nicht verf'' @ [CHR 0xFC] @ ''gbar)''"

text \<open>Lines 65 to 71.\<close>

definition get_reply :: "services \<Rightarrow> string \<Rightarrow> string \<Rightarrow> world \<Rightarrow> world \<times> string" where
  "get_reply svc full_prompt user_txt w =
     (case ask svc full_prompt of
        Inr reply \<Rightarrow> (say (''LLM response successful: '' @ take 100 reply @ ''...'') w, reply)
      | Inl llm_error \<Rightarrow>
          (say (''LLM request failed: '' @ exn_msg llm_error) w, fallback_reply user_txt))"

text \<open>Lines 74 to 84: the result is \<open>tts_filename\<close> and \<open>tts_url\<close>.\<close>

definition generate_tts ::
  "services \<Rightarrow> env \<Rightarrow> string \<Rightarrow> world \<Rightarrow> world \<times> string option \<times> string option" where
  "generate_tts svc env reply w =
     (let tts_filename = ''reply_'' @ now_strftime env @ ''.wav'';
          tts_path = ''data/audio/'' @ tts_filename
      in case save_tts svc reply tts_path of
           None \<Rightarrow>
             (say (''TTS generation successful: '' @ tts_filename) w,
              Some tts_filename, Some (''/audio/'' @ tts_filename))
         | Some tts_error \<Rightarrow>
             (say (''TTS generation failed: '' @ exn_msg tts_error) w, None, None))"

text \<open>Lines 87 to 102.\<close>

definition history_text :: "world \<Rightarrow> string" where
  "history_text w = (case history w of None \<Rightarrow> [] | Some s \<Rightarrow> s)"

definition save_history :: "env \<Rightarrow> conversation \<Rightarrow> world \<Rightarrow> world" where
  "save_history env conv w =
     (case history_write env of
        None \<Rightarrow>
          say ''Conversation saved to history''
            (w\<lparr>history := Some (history_text w @ json_dumps env conv @ [CHR 0x0A])\<rparr>)
      | Some history_error \<Rightarrow>
          say (''Failed to save conversation history: '' @ exn_msg history_error) w)"

text \<open>Lines 54 to 110, once the transcript is known not to be blank.\<close>

definition answer ::
  "services \<Rightarrow> env \<Rightarrow> request \<Rightarrow> string \<Rightarrow> world \<Rightarrow> world \<times> (exn + response)" where
  "answer svc env req user_txt w =
     (case build_prompt env (topic req) user_txt of
        Inl e \<Rightarrow> (w, Inl e)
      | Inr full_prompt \<Rightarrow>
          (let (w1, reply) = get_reply svc full_prompt user_txt w;
               (w2, tts_filename, url) = generate_tts svc env reply w1;
               conv = \<lparr>timestamp = now_isoformat env, conv_topic = topic req,
                       conv_user_text = user_txt, conv_reply_text = reply,
                       tts_file = tts_filename\<rparr>;
               w3 = save_history env conv w2;
               w4 = say (''Returning successful response: user_text='' @ [CHR 0x27] @ user_txt
                         @ [CHR 0x27] @ '', reply_text='' @ [CHR 0x27] @ take 50 reply
                         @ ''...'' @ [CHR 0x27] @ '', tts_url='' @ [CHR 0x27] @ fmt_opt url
                         @ [CHR 0x27]) w3
           in (w4, Inr (Response 200 (ChatBody user_txt reply url (topic req))))))"

text \<open>The body of the outer \<open>try\<close>, lines 25 to 110.\<close>

definition voice_chat_try ::
  "services \<Rightarrow> env \<Rightarrow> request \<Rightarrow> world \<Rightarrow> world \<times> (exn + response)" where
  "voice_chat_try svc env req w =
     (case save_upload env req w of
        (w1, Inl e) \<Rightarrow> (w1, Inl e)
      | (w1, Inr temp_audio_path) \<Rightarrow>
          let w2 = say (''Temp file created: '' @ temp_audio_path)
                     (say (''Audio uploaded: '' @ fmt_opt (filename req) @ '', size: ''
                           @ show_nat (length (content req)) @ '' bytes'') w1)
          in
          (case transcribe svc (files w2) temp_audio_path of
             Inl transcription_error \<Rightarrow>
               (unlink temp_audio_path
                  (say (''Transcription failed with error: '' @ exn_msg transcription_error) w2),
                Inl transcription_error)
           | Inr user_txt \<Rightarrow>
               let w3 = unlink temp_audio_path
                          (say (''Transcription successful: '' @ take 100 user_txt @ ''...'') w2)
               in
               if py_strip user_txt = []
               then (w3, Inr (Response 400 (ErrorBody ''Could not transcribe audio'')))
               else answer svc env req user_txt w3))"

text \<open>The handler with its outer \<open>except\<close>, lines 112 to 121.\<close>

definition voice_chat_with :: "services \<Rightarrow> env \<Rightarrow> request \<Rightarrow> world \<Rightarrow> world \<times> response" where
  "voice_chat_with svc env req w =
     (case voice_chat_try svc env req w of
        (w1, Inr r) \<Rightarrow> (w1, r)
      | (w1, Inl e) \<Rightarrow>
          (say (''Error type: '' @ exn_type e)
             (say (''Request processing failed with error: '' @ exn_msg e) w1),
           Response 500 (ErrorBody (''Processing failed: '' @ exn_msg e))))"

text \<open>The handler as deployed: the three modules above, called with their defaults.\<close>

definition services_of :: "env \<Rightarrow> services" where
  "services_of env =
     \<lparr>transcribe = transcribe_audio env,
      ask = (\<lambda>prompt. ask_ollama env prompt ''llama3.1:8b'' ''http://localhost:11434'' 60),
      save_tts = (\<lambda>txt output_path.
                    snd (save_tts_audio env txt output_path ''de-DE-KatjaNeural'' True))\<rparr>"

definition voice_chat :: "env \<Rightarrow> request \<Rightarrow> world \<Rightarrow> world \<times> response" where
  "voice_chat env = voice_chat_with (services_of env) env"

text \<open>
  \<open>GET /api/v1/history\<close>. \<open>readlines\<close> cuts the text after every newline character and
  keeps it in the line; \<open>py_slice_from k xs\<close> is the slice \<open>xs[k:]\<close>; \<open>json.loads\<close> is a
  parameter. The loop of lines 135 to 137 appends to \<open>conversations\<close>.
\<close>

fun readlines_from :: "string \<Rightarrow> string \<Rightarrow> string list" where
  "readlines_from line [] = (if line = [] then [] else [line])"
| "readlines_from line (c # cs) =
     (if c = CHR 0x0A then (line @ [c]) # readlines_from [] cs
      else readlines_from (line @ [c]) cs)"

definition readlines :: "string \<Rightarrow> string list" where
  "readlines s = readlines_from [] s"

definition py_slice_from :: "int \<Rightarrow> 'a list \<Rightarrow> 'a list" where
  "py_slice_from k xs =
     (let n = int (length xs);
          i = (if k < 0 then max (n + k) 0 else min k n)
      in drop (nat i) xs)"

fun parse_lines :: "(string \<Rightarrow> exn + 'j) \<Rightarrow> string list \<Rightarrow> 'j list \<Rightarrow> exn + 'j list" where
  "parse_lines json_loads [] conversations = Inr conversations"
| "parse_lines json_loads (line # rest) conversations =
     (if py_strip line \<noteq> [] then
        (case json_loads (py_strip line) of
           Inl e \<Rightarrow> Inl e
         | Inr c \<Rightarrow> parse_lines json_loads rest (conversations @ [c]))
      else parse_lines json_loads rest conversations)"

datatype 'j history_response = Conversations "'j list" | HistoryError nat string

definition get_history :: "(string \<Rightarrow> exn + 'j) \<Rightarrow> world \<Rightarrow> int \<Rightarrow> 'j history_response" where
  "get_history json_loads w limit =
     (case history w of
        None \<Rightarrow> Conversations []
      | Some contents \<Rightarrow>
          (case parse_lines json_loads (py_slice_from (- limit) (readlines contents)) [] of
             Inr conversations \<Rightarrow> Conversations conversations
           | Inl e \<Rightarrow> HistoryError 500 (''Failed to get history: '' @ exn_msg e)))"

section \<open>Vocabulary of the properties\<close>

text \<open>
  The transcript of a request: what \<open>transcribe_audio\<close> returns on the scratch file, when
  the upload has been saved.
\<close>

definition transcript :: "env \<Rightarrow> request \<Rightarrow> world \<Rightarrow> string option" where
  "transcript env req w =
     (case save_upload env req w of
        (w1, Inl e) \<Rightarrow> None
      | (w1, Inr temp_audio_path) \<Rightarrow>
          (case transcribe_audio env (files w1) temp_audio_path of
             Inl e \<Rightarrow> None
           | Inr user_txt \<Rightarrow> Some user_txt))"

text \<open>
  A request on which every stage succeeds, used to run the definitions: the clip is
  recognised as \<open>Hallo\<close>, the model answers \<open>Guten Tag\<close>, both speech engines work.
  \<open>example_dumps\<close> stands in for \<open>json.dumps\<close> in these runs.
\<close>

definition example_dumps :: "conversation \<Rightarrow> string" where
  "example_dumps c =
     timestamp c @ ''|'' @ conv_topic c @ ''|'' @ conv_user_text c @ ''|'' @ conv_reply_text c
     @ ''|'' @ fmt_opt (tts_file c)"

definition example_env :: env where
  "example_env =
     \<lparr>NamedTemporaryFile = Inr ''/tmp/tmpa.wav'', audio_read = None, temp_audio_write = None,
      whisper_import = None, whisper_load_model = None,
      whisper_transcribe =
        (\<lambda>c. Inr \<lparr>result_text = '' Hallo'', result_language = Some ''de''\<rparr>),
      system_prompt_file = None,
      requests_post =
        (\<lambda>url p t. Inr \<lparr>status_code = 200, response_text = ''{...}'',
           response_json = Inr \<lparr>response_field = JStr ''Guten Tag'', result_repr = ''{...}''\<rparr>\<rparr>),
      mkdir_audio_dir = None, PYTTSX3_AVAILABLE = True, EDGE_TTS_AVAILABLE = True,
      pyttsx3_save = (\<lambda>k. None), edge_tts_save = None,
      now_strftime = ''20240101_000000'', now_isoformat = ''2024-01-01T00:00:00'',
      json_dumps = example_dumps, history_write = None\<rparr>"

definition example_request :: request where
  "example_request = \<lparr>filename = Some ''clip.wav'', content = [82, 73, 70, 70], topic = ''shopping''\<rparr>"

definition example_world :: world where
  "example_world = \<lparr>files = Map.empty, history = None, stdout = []\<rparr>"

definition example_files :: "path \<rightharpoonup> bytes" where
  "example_files = [''/tmp/tmpa.wav'' \<mapsto> [82, 73, 70, 70]]"

text \<open>An engine that recognises no speech in the clip.\<close>

definition hears_nothing :: "bytes \<Rightarrow> exn + whisper_result" where
  "hears_nothing c = Inr \<lparr>result_text = ''  '', result_language = None\<rparr>"

text \<open>A transcription stage that raises, as a stand-in for \<open>transcribe_audio\<close>.\<close>

definition transcription_raises :: "(path \<rightharpoonup> bytes) \<Rightarrow> path \<Rightarrow> exn + string" where
  "transcription_raises fs p = Inl (Exn ''RuntimeError'' ''CUDA out of memory'')"

text \<open>
  A stand-in for \<open>json.loads\<close> in the runs: the parsed value is shown by its text.
\<close>

definition example_loads :: "string \<Rightarrow> exn + string" where
  "example_loads s = Inr s"

text \<open>Stand-ins for a refused connection to Ollama and for failing speech engines.\<close>

definition connection_refused :: "string \<Rightarrow> payload \<Rightarrow> nat \<Rightarrow> exn + http_response" where
  "connection_refused url p t = Inl (Exn ''ConnectionError'' ''Connection refused'')"

definition fails_once :: "nat \<Rightarrow> exn option" where
  "fails_once k = (if k = 0 then Some (Exn ''RuntimeError'' ''run loop already started'') else None)"

definition always_fails :: "nat \<Rightarrow> exn option" where
  "always_fails k = Some (Exn ''RuntimeError'' ''no audio device'')"

section \<open>Auxiliary facts\<close>

lemma dropWhile_rev_cut:
  "rev (dropWhile P (rev xs)) \<noteq> [] \<Longrightarrow> hd (rev (dropWhile P (rev xs))) = hd xs"
proof -
  assume ne: "rev (dropWhile P (rev xs)) \<noteq> []"
  have "rev xs = takeWhile P (rev xs) @ dropWhile P (rev xs)" by simp
  then have "xs = rev (dropWhile P (rev xs)) @ rev (takeWhile P (rev xs))"
    by (metis rev_append rev_rev_ident)
  then show ?thesis using ne by (metis hd_append2)
qed

lemma py_strip_idem: "py_strip (py_strip s) = py_strip s"
proof (cases "py_strip s = []")
  case True
  have "py_strip [] = []" by (simp add: py_strip_def)
  with True show ?thesis by simp
next
  case False
  define a where "a = dropWhile py_isspace s"
  define b where "b = rev (dropWhile py_isspace (rev a))"
  have b: "py_strip s = b" by (simp add: py_strip_def a_def b_def)
  with False have bne: "b \<noteq> []" by simp
  then have ane: "a \<noteq> []" by (auto simp: b_def)
  have "hd b = hd a" using bne unfolding b_def by (rule dropWhile_rev_cut)
  moreover have "\<not> py_isspace (hd a)" using ane unfolding a_def by (rule hd_dropWhile)
  ultimately have lead: "dropWhile py_isspace b = b" using bne
    by (simp add: dropWhile_eq_self_iff)
  have "rev b = dropWhile py_isspace (rev a)" by (simp add: b_def)
  then have trail: "dropWhile py_isspace (rev b) = rev b" by simp
  show ?thesis unfolding b by (simp add: py_strip_def lead trail)
qed

lemma sentinel_not_blank: "py_strip ''[Kein Audio erkannt]'' = ''[Kein Audio erkannt]''"
  by (simp add: py_strip_def py_isspace_def)

lemma transcribe_with_library_not_blank:
  "transcribe_with_library env fs p m = Inr t \<Longrightarrow> py_strip t = t \<and> t \<noteq> []"
  by (auto simp: transcribe_with_library_def transcribe_with_library_try_def Let_def
        py_strip_idem sentinel_not_blank
      split: option.splits sum.splits if_splits)

lemma transcribe_audio_returns: "\<exists>t. transcribe_audio env fs p = Inr t"
  by (simp add: transcribe_audio_def split: sum.splits)

lemma transcribe_audio_not_blank:
  "transcribe_audio env fs p = Inr t \<Longrightarrow> t \<noteq> [] \<Longrightarrow> py_strip t \<noteq> []"
  using transcribe_with_library_not_blank [of env fs p "''tiny''"]
  by (auto simp: transcribe_audio_def split: sum.splits if_splits)

lemma save_upload_keeps:
  "save_upload env req w = (w1, r) \<Longrightarrow> history w1 = history w \<and> stdout w1 = stdout w"
  by (auto simp: save_upload_def Let_def split: sum.splits option.splits)

lemma save_upload_Inr:
  "save_upload env req w = (w1, Inr name) \<Longrightarrow>
     files w1 = (files w)(name \<mapsto> content req) \<and> NamedTemporaryFile env = Inr name"
  by (auto simp: save_upload_def Let_def split: sum.splits option.splits)

lemma say_simps:
  "files (say l w) = files w" "history (say l w) = history w" "stdout (say l w) = stdout w @ [l]"
  by (simp_all add: say_def)

lemma unlink_simps:
  "files (unlink p w) = (files w)(p := None)" "history (unlink p w) = history w"
  "stdout (unlink p w) = stdout w"
  by (simp_all add: unlink_def)

lemma answer_prompt_failed:
  "build_prompt env (topic req) t = Inl e \<Longrightarrow> answer svc env req t w = (w, Inl e)"
  by (simp add: answer_def)

lemma answer_response:
  "build_prompt env (topic req) t = Inr full_prompt \<Longrightarrow>
   snd (answer svc env req t w) =
     Inr (Response 200
       (ChatBody t
          (case ask svc full_prompt of Inr r \<Rightarrow> r | Inl e \<Rightarrow> fallback_reply t)
          (case save_tts svc
                  (case ask svc full_prompt of Inr r \<Rightarrow> r | Inl e \<Rightarrow> fallback_reply t)
                  (''data/audio/'' @ ''reply_'' @ now_strftime env @ ''.wav'') of
             None \<Rightarrow> Some (''/audio/'' @ ''reply_'' @ now_strftime env @ ''.wav'')
           | Some e \<Rightarrow> None)
          (topic req)))"
  by (simp add: answer_def get_reply_def generate_tts_def Let_def
      split: sum.splits option.splits prod.splits)

lemma answer_files: "files (fst (answer svc env req t w)) = files w"
  by (simp add: answer_def get_reply_def generate_tts_def save_history_def say_def Let_def
      split: sum.splits option.splits prod.splits)

lemma answer_history:
  "build_prompt env (topic req) t = Inr full_prompt \<Longrightarrow>
   history (fst (answer svc env req t w)) =
     (case history_write env of
        Some e \<Rightarrow> history w
      | None \<Rightarrow>
          Some (history_text w @
            json_dumps env
               \<lparr>timestamp = now_isoformat env, conv_topic = topic req, conv_user_text = t,
                conv_reply_text =
                  (case ask svc full_prompt of Inr r \<Rightarrow> r | Inl e \<Rightarrow> fallback_reply t),
                tts_file =
                  (case save_tts svc
                          (case ask svc full_prompt of Inr r \<Rightarrow> r | Inl e \<Rightarrow> fallback_reply t)
                          (''data/audio/'' @ ''reply_'' @ now_strftime env @ ''.wav'') of
                     None \<Rightarrow> Some (''reply_'' @ now_strftime env @ ''.wav'')
                   | Some e \<Rightarrow> None)\<rparr>
             @ [CHR 0x0A]))"
  by (simp add: answer_def get_reply_def generate_tts_def save_history_def say_def Let_def
        history_text_def
      split: sum.splits option.splits prod.splits)

lemma voice_chat_with_upload_failed:
  "save_upload env req w = (w1, Inl e) \<Longrightarrow>
   voice_chat_with svc env req w =
     (say (''Error type: '' @ exn_type e)
        (say (''Request processing failed with error: '' @ exn_msg e) w1),
      Response 500 (ErrorBody (''Processing failed: '' @ exn_msg e)))"
  by (simp add: voice_chat_with_def voice_chat_try_def)

lemma voice_chat_with_transcribe_raised:
  "save_upload env req w = (w1, Inr name) \<Longrightarrow> transcribe svc (files w1) name = Inl e \<Longrightarrow>
   snd (voice_chat_with svc env req w) =
       Response 500 (ErrorBody (''Processing failed: '' @ exn_msg e))
   \<and> (''Request processing failed with error: '' @ exn_msg e)
         \<in> set (stdout (fst (voice_chat_with svc env req w)))
   \<and> files (fst (voice_chat_with svc env req w)) = (files w1)(name := None)
   \<and> history (fst (voice_chat_with svc env req w)) = history w1"
  by (simp add: voice_chat_with_def voice_chat_try_def Let_def say_def unlink_def)

lemma voice_chat_with_blank:
  "save_upload env req w = (w1, Inr name) \<Longrightarrow> transcribe svc (files w1) name = Inr t \<Longrightarrow>
   py_strip t = [] \<Longrightarrow>
   snd (voice_chat_with svc env req w) = Response 400 (ErrorBody ''Could not transcribe audio'')
   \<and> files (fst (voice_chat_with svc env req w)) = (files w1)(name := None)
   \<and> history (fst (voice_chat_with svc env req w)) = history w1"
  by (simp add: voice_chat_with_def voice_chat_try_def Let_def say_def unlink_def)

lemma voice_chat_try_answered:
  "save_upload env req w = (w1, Inr name) \<Longrightarrow> transcribe svc (files w1) name = Inr t \<Longrightarrow>
   py_strip t \<noteq> [] \<Longrightarrow>
   voice_chat_try svc env req w =
     answer svc env req t
       (unlink name
          (say (''Transcription successful: '' @ take 100 t @ ''...'')
             (say (''Temp file created: '' @ name)
                (say (''Audio uploaded: '' @ fmt_opt (filename req) @ '', size: ''
                      @ show_nat (length (content req)) @ '' bytes'') w1))))"
  by (simp add: voice_chat_try_def Let_def say_simps)

lemma voice_chat_with_prompt_failed:
  assumes "save_upload env req w = (w1, Inr name)"
      and "transcribe svc (files w1) name = Inr t" and "py_strip t \<noteq> []"
      and "build_prompt env (topic req) t = Inl e"
  shows "snd (voice_chat_with svc env req w)
           = Response 500 (ErrorBody (''Processing failed: '' @ exn_msg e))
         \<and> files (fst (voice_chat_with svc env req w)) = (files w1)(name := None)
         \<and> history (fst (voice_chat_with svc env req w)) = history w1"
proof -
  define w3 where "w3 = unlink name
          (say (''Transcription successful: '' @ take 100 t @ ''...'')
             (say (''Temp file created: '' @ name)
                (say (''Audio uploaded: '' @ fmt_opt (filename req) @ '', size: ''
                      @ show_nat (length (content req)) @ '' bytes'') w1)))"
  have body_eq: "voice_chat_try svc env req w = answer svc env req t w3"
    unfolding w3_def by (rule voice_chat_try_answered [OF assms(1-3)])
  have w3: "history w3 = history w1" "files w3 = (files w1)(name := None)"
    by (simp_all add: w3_def say_simps unlink_simps)
  show ?thesis
    by (simp add: voice_chat_with_def body_eq answer_prompt_failed [OF assms(4)] say_simps w3)
qed

lemma voice_chat_with_answered_ex:
  assumes "save_upload env req w = (w1, Inr name)"
      and "transcribe svc (files w1) name = Inr t" and "py_strip t \<noteq> []"
      and "build_prompt env (topic req) t = Inr full_prompt"
  shows "\<exists>w3. voice_chat_with svc env req w
                = (fst (answer svc env req t w3),
                   Response 200
                     (ChatBody t
                        (case ask svc full_prompt of Inr r \<Rightarrow> r | Inl e \<Rightarrow> fallback_reply t)
                        (case save_tts svc
                                (case ask svc full_prompt of
                                   Inr r \<Rightarrow> r | Inl e \<Rightarrow> fallback_reply t)
                                (''data/audio/'' @ ''reply_'' @ now_strftime env @ ''.wav'') of
                           None \<Rightarrow> Some (''/audio/'' @ ''reply_'' @ now_strftime env @ ''.wav'')
                         | Some e \<Rightarrow> None)
                        (topic req)))
              \<and> history w3 = history w1 \<and> files w3 = (files w1)(name := None)"
proof -
  define w3 where "w3 = unlink name
          (say (''Transcription successful: '' @ take 100 t @ ''...'')
             (say (''Temp file created: '' @ name)
                (say (''Audio uploaded: '' @ fmt_opt (filename req) @ '', size: ''
                      @ show_nat (length (content req)) @ '' bytes'') w1)))"
  have body_eq: "voice_chat_try svc env req w = answer svc env req t w3"
    unfolding w3_def by (rule voice_chat_try_answered [OF assms(1-3)])
  obtain w4 r where a: "answer svc env req t w3 = (w4, r)"
    by (cases "answer svc env req t w3")
  from a answer_response [OF assms(4), of svc w3] have r: "r = Inr (Response 200
                     (ChatBody t
                        (case ask svc full_prompt of Inr r \<Rightarrow> r | Inl e \<Rightarrow> fallback_reply t)
                        (case save_tts svc
                                (case ask svc full_prompt of
                                   Inr r \<Rightarrow> r | Inl e \<Rightarrow> fallback_reply t)
                                (''data/audio/'' @ ''reply_'' @ now_strftime env @ ''.wav'') of
                           None \<Rightarrow> Some (''/audio/'' @ ''reply_'' @ now_strftime env @ ''.wav'')
                         | Some e \<Rightarrow> None)
                        (topic req)))"
    by simp
  have "voice_chat_with svc env req w
          = (fst (answer svc env req t w3),
             Response 200
                     (ChatBody t
                        (case ask svc full_prompt of Inr r \<Rightarrow> r | Inl e \<Rightarrow> fallback_reply t)
                        (case save_tts svc
                                (case ask svc full_prompt of
                                   Inr r \<Rightarrow> r | Inl e \<Rightarrow> fallback_reply t)
                                (''data/audio/'' @ ''reply_'' @ now_strftime env @ ''.wav'') of
                           None \<Rightarrow> Some (''/audio/'' @ ''reply_'' @ now_strftime env @ ''.wav'')
                         | Some e \<Rightarrow> None)
                        (topic req)))"
    by (simp add: voice_chat_with_def body_eq a r)
  moreover have "history w3 = history w1" by (simp add: w3_def say_simps unlink_simps)
  moreover have "files w3 = (files w1)(name := None)"
    by (simp add: w3_def say_simps unlink_simps)
  ultimately show ?thesis by blast
qed

lemmas run_defs =
  voice_chat_def voice_chat_with_def voice_chat_try_def save_upload_def services_of_def
  transcribe_audio_def transcribe_with_library_def transcribe_with_library_try_def
  py_strip_def py_isspace_def say_def unlink_def answer_def get_reply_def generate_tts_def
  save_history_def history_text_def ask_ollama_def ask_ollama_try_def save_tts_audio_def
  save_tts_online_def offline_calls_def build_prompt_def format_prompt_def transcript_def
  Let_def example_env_def example_request_def example_world_def example_dumps_def
  fmt_opt_def Exception_def is_ImportError_def is_ConnectionError_def is_Timeout_def

lemma transcript_services:
  "transcript env req w = Some t \<Longrightarrow>
     \<exists>w1 name. save_upload env req w = (w1, Inr name)
        \<and> transcribe (services_of env) (files w1) name = Inr t"
  by (auto simp: transcript_def services_of_def split: prod.splits sum.splits)

lemma transcribe_audio_not_Inl: "transcribe_audio env fs p \<noteq> Inl e"
  by (simp add: transcribe_audio_def split: sum.splits)

lemma services_of_simps:
  "ask (services_of env) prompt = ask_ollama env prompt ''llama3.1:8b'' ''http://localhost:11434'' 60"
  "save_tts (services_of env) txt output_path
     = snd (save_tts_audio env txt output_path ''de-DE-KatjaNeural'' True)"
  "transcribe (services_of env) = transcribe_audio env"
  by (simp_all add: services_of_def)

lemma build_prompt_Inl:
  "build_prompt env tpc t = Inl e \<longleftrightarrow> system_prompt_file env = Some (Inl e)"
  by (simp add: build_prompt_def split: option.splits sum.splits)

lemma voice_chat_try_Inl:
  "snd (voice_chat_try (services_of env) env req w) = Inl e \<Longrightarrow>
     snd (save_upload env req w) = Inl e \<or> system_prompt_file env = Some (Inl e)"
proof -
  assume a: "snd (voice_chat_try (services_of env) env req w) = Inl e"
  obtain w1 r where up: "save_upload env req w = (w1, r)" by (cases "save_upload env req w")
  show ?thesis
  proof (cases r)
    case (Inl x)
    with up a show ?thesis by (simp add: voice_chat_try_def)
  next
    case (Inr name)
    with up have up': "save_upload env req w = (w1, Inr name)" by simp
    obtain t where tr: "transcribe (services_of env) (files w1) name = Inr t"
      using transcribe_audio_returns [of env "files w1" name] by (auto simp: services_of_simps)
    show ?thesis
    proof (cases "py_strip t = []")
      case True
      with up' tr a show ?thesis by (simp add: voice_chat_try_def Let_def say_simps)
    next
      case False
      from a obtain w3 where "snd (answer (services_of env) env req t w3) = Inl e"
        by (simp add: voice_chat_try_answered [OF up' tr False])
      then have "build_prompt env (topic req) t = Inl e"
        by (cases "build_prompt env (topic req) t")
           (simp_all add: answer_prompt_failed answer_response)
      then show ?thesis by (simp add: build_prompt_Inl)
    qed
  qed
qed

section \<open>The transcription stage never raises\<close>

text \<open>
  Claim C10. \<open>transcribe_audio\<close> returns for every environment, file system and path;
  whenever \<open>_transcribe_with_library\<close> raises, it returns the empty string. So with
  \<open>transcribe_audio\<close> as the transcription stage, an exception leaves the \<open>try\<close> body of
  \<open>voice_chat\<close> only when saving the upload or reading the system prompt raised it (the
  branch that removes the scratch file and re-raises is never taken), and a 500 response
  is never due to transcription.
\<close>

theorem transcribe_audio_total:
  "(\<exists>t. transcribe_audio env fs p = Inr t)
   \<and> (\<forall>e. transcribe_with_library env fs p ''tiny'' = Inl e \<longrightarrow> transcribe_audio env fs p = Inr [])
   \<and> (\<forall>e. snd (voice_chat_try (services_of env) env req w) = Inl e
          \<longrightarrow> snd (save_upload env req w) = Inl e \<or> system_prompt_file env = Some (Inl e))
   \<and> (status (snd (voice_chat env req w)) = 500
        \<longrightarrow> isl (snd (save_upload env req w)) \<or> (\<exists>e. system_prompt_file env = Some (Inl e)))"
proof (intro conjI allI impI)
  show "\<exists>t. transcribe_audio env fs p = Inr t" by (rule transcribe_audio_returns)
next
  fix e assume "transcribe_with_library env fs p ''tiny'' = Inl e"
  then show "transcribe_audio env fs p = Inr []" by (simp add: transcribe_audio_def)
next
  fix e assume "snd (voice_chat_try (services_of env) env req w) = Inl e"
  then show "snd (save_upload env req w) = Inl e \<or> system_prompt_file env = Some (Inl e)"
    by (rule voice_chat_try_Inl)
next
  assume s: "status (snd (voice_chat env req w)) = 500"
  obtain w1 r where r: "voice_chat_try (services_of env) env req w = (w1, r)"
    by (cases "voice_chat_try (services_of env) env req w")
  show "isl (snd (save_upload env req w)) \<or> (\<exists>e. system_prompt_file env = Some (Inl e))"
  proof (cases r)
    case (Inl e)
    with r have "snd (voice_chat_try (services_of env) env req w) = Inl e" by simp
    then have "snd (save_upload env req w) = Inl e \<or> system_prompt_file env = Some (Inl e)"
      by (rule voice_chat_try_Inl)
    then show ?thesis by auto
  next
    case (Inr resp)
    with r s have "status resp = 500" by (simp add: voice_chat_def voice_chat_with_def)
    moreover have "status resp = 200 \<or> status resp = 400"
      using r Inr
      by (auto simp: voice_chat_try_def Let_def answer_def
          split: prod.splits sum.splits if_splits)
    ultimately show ?thesis by simp
  qed
qed

theorem transcribe_audio_total_witness:
  "transcribe_with_library
      (example_env\<lparr>whisper_load_model := Some (Exn ''RuntimeError'' ''out of memory'')\<rparr>)
      example_files ''/tmp/tmpa.wav'' ''tiny''
     = Inl (Exception ''Library transcription error: out of memory'')
   \<and> transcribe_audio
        (example_env\<lparr>whisper_load_model := Some (Exn ''RuntimeError'' ''out of memory'')\<rparr>)
        example_files ''/tmp/tmpa.wav'' = Inr []
   \<and> status (snd (voice_chat
        (example_env\<lparr>NamedTemporaryFile := Inl (Exn ''OSError'' ''[Errno 28] No space left on device'')\<rparr>)
        example_request example_world)) = 500
   \<and> isl (snd (save_upload
        (example_env\<lparr>NamedTemporaryFile := Inl (Exn ''OSError'' ''[Errno 28] No space left on device'')\<rparr>)
        example_request example_world))"
  using transcribe_audio_total
    [of "example_env\<lparr>whisper_load_model := Some (Exn ''RuntimeError'' ''out of memory'')\<rparr>"
        example_files "''/tmp/tmpa.wav''" example_request example_world]
    transcribe_audio_total
    [of "example_env\<lparr>NamedTemporaryFile := Inl (Exn ''OSError'' ''[Errno 28] No space left on device'')\<rparr>"
        example_files "''/tmp/tmpa.wav''" example_request example_world]
  by (simp add: run_defs example_files_def)

section \<open>What the transcription stage returns when the engine fails\<close>

text \<open>
  Claim C7, as stated, at a missing engine: \<open>import whisper\<close> raises, and
  \<open>transcribe_audio\<close> returns the empty string, which is not the marker
  \<open>[Kein Audio erkannt]\<close>.
\<close>

theorem missing_engine_counterexample:
  "transcribe_audio
     (example_env\<lparr>whisper_import := Some (Exn ''ModuleNotFoundError'' ''No module named whisper'')\<rparr>)
     example_files ''/tmp/tmpa.wav'' = Inr []
   \<and> transcribe_audio
     (example_env\<lparr>whisper_import := Some (Exn ''ModuleNotFoundError'' ''No module named whisper'')\<rparr>)
     example_files ''/tmp/tmpa.wav'' \<noteq> Inr ''[Kein Audio erkannt]''"
  by (simp add: run_defs example_files_def)

text \<open>
  Claim C7, amended. On a file that exists, \<open>transcribe_audio\<close> raises nothing: when the
  engine is missing, the clip is empty, the model cannot be loaded or decoding raises, it
  returns the empty string; when the engine recognises nothing (blank text), it returns
  the marker \<open>[Kein Audio erkannt]\<close>. The handler answers an empty transcript with 400
  and \<open>Could not transcribe audio\<close>, and an exception of the transcription stage with 500.
\<close>

theorem transcribe_audio_soft_failure:
  "(fs p = Some c
      \<and> (whisper_import env \<noteq> None \<or> c = [] \<or> whisper_load_model env \<noteq> None
          \<or> isl (whisper_transcribe env c))
      \<longrightarrow> transcribe_audio env fs p = Inr [])
   \<and> (fs p = Some c \<and> whisper_import env = None \<and> c \<noteq> [] \<and> whisper_load_model env = None
        \<and> whisper_transcribe env c = Inr r \<and> py_strip (result_text r) = []
      \<longrightarrow> transcribe_audio env fs p = Inr ''[Kein Audio erkannt]'')
   \<and> (save_upload env req w = (w1, Inr name) \<and> transcribe svc (files w1) name = Inr []
      \<longrightarrow> snd (voice_chat_with svc env req w)
            = Response 400 (ErrorBody ''Could not transcribe audio''))
   \<and> (save_upload env req w = (w1, Inr name) \<and> transcribe svc (files w1) name = Inl e
      \<longrightarrow> status (snd (voice_chat_with svc env req w)) = 500)"
proof (intro conjI impI)
  assume "fs p = Some c \<and> (whisper_import env \<noteq> None \<or> c = [] \<or> whisper_load_model env \<noteq> None
          \<or> isl (whisper_transcribe env c))"
  then show "transcribe_audio env fs p = Inr []"
    by (auto simp: transcribe_audio_def transcribe_with_library_def
          transcribe_with_library_try_def isl_def
        split: sum.splits option.splits)
next
  assume "fs p = Some c \<and> whisper_import env = None \<and> c \<noteq> [] \<and> whisper_load_model env = None
        \<and> whisper_transcribe env c = Inr r \<and> py_strip (result_text r) = []"
  then show "transcribe_audio env fs p = Inr ''[Kein Audio erkannt]''"
    by (simp add: transcribe_audio_def transcribe_with_library_def
          transcribe_with_library_try_def)
next
  assume a: "save_upload env req w = (w1, Inr name) \<and> transcribe svc (files w1) name = Inr []"
  have "py_strip [] = []" by (simp add: py_strip_def)
  with a show "snd (voice_chat_with svc env req w)
            = Response 400 (ErrorBody ''Could not transcribe audio'')"
    using voice_chat_with_blank [of env req w w1 name svc "[]"] by simp
next
  assume "save_upload env req w = (w1, Inr name) \<and> transcribe svc (files w1) name = Inl e"
  then show "status (snd (voice_chat_with svc env req w)) = 500"
    using voice_chat_with_transcribe_raised [of env req w w1 name svc e] by simp
qed

theorem transcribe_audio_soft_failure_witness:
  "transcribe_audio
     (example_env\<lparr>whisper_import := Some (Exn ''ModuleNotFoundError'' ''No module named whisper'')\<rparr>)
     example_files ''/tmp/tmpa.wav'' = Inr []
   \<and> transcribe_audio (example_env\<lparr>whisper_transcribe := hears_nothing\<rparr>)
       example_files ''/tmp/tmpa.wav'' = Inr ''[Kein Audio erkannt]''
   \<and> snd (voice_chat
            (example_env\<lparr>whisper_import := Some (Exn ''ModuleNotFoundError'' ''No module named whisper'')\<rparr>)
            example_request example_world)
       = Response 400 (ErrorBody ''Could not transcribe audio'')
   \<and> status (snd (voice_chat_with
            ((services_of example_env)\<lparr>transcribe := transcription_raises\<rparr>)
            example_env example_request example_world)) = 500"
  using
    transcribe_audio_soft_failure
      [of example_files "''/tmp/tmpa.wav''" "[82, 73, 70, 70]"
          "example_env\<lparr>whisper_import := Some (Exn ''ModuleNotFoundError'' ''No module named whisper'')\<rparr>"
          "\<lparr>result_text = ''  '', result_language = None\<rparr>"
          example_request example_world
          "example_world\<lparr>files := example_files\<rparr>" "''/tmp/tmpa.wav''"
          "services_of (example_env\<lparr>whisper_import := Some (Exn ''ModuleNotFoundError'' ''No module named whisper'')\<rparr>)"
          "Exn ''RuntimeError'' ''CUDA out of memory''"]
    transcribe_audio_soft_failure
      [of example_files "''/tmp/tmpa.wav''" "[82, 73, 70, 70]"
          "example_env\<lparr>whisper_transcribe := hears_nothing\<rparr>"
          "\<lparr>result_text = ''  '', result_language = None\<rparr>"
          example_request example_world
          "example_world\<lparr>files := example_files\<rparr>" "''/tmp/tmpa.wav''"
          "(services_of example_env)\<lparr>transcribe := transcription_raises\<rparr>"
          "Exn ''RuntimeError'' ''CUDA out of memory''"]
  by (simp add: run_defs example_files_def hears_nothing_def transcription_raises_def)

section \<open>A clip in which no speech is recognised\<close>

text \<open>
  An empty transcript is refused: the response is 400 and the history file is left as
  it was.
\<close>

lemma empty_transcript_refused:
  assumes "transcript env req w = Some t" and "py_strip t = []"
  shows "snd (voice_chat env req w) = Response 400 (ErrorBody ''Could not transcribe audio'')
         \<and> history (fst (voice_chat env req w)) = history w"
proof -
  from assms(1) obtain w1 name where
    up: "save_upload env req w = (w1, Inr name)" and
    tr: "transcribe (services_of env) (files w1) name = Inr t"
    using transcript_services by blast
  from up have "history w1 = history w" using save_upload_keeps by blast
  with voice_chat_with_blank [OF up tr assms(2)] show ?thesis
    by (simp add: voice_chat_def)
qed

text \<open>
  Claim C1 at the marker. The engine recognises nothing in the clip, so
  \<open>_transcribe_with_library\<close> returns \<open>[Kein Audio erkannt]\<close>; \<open>transcribe_audio\<close> passes it
  on, the test \<open>not user_text.strip()\<close> of \<open>voice_chat\<close> does not hold for it, and the
  request is answered with 200 and recorded in the history file.
\<close>

theorem sentinel_transcript_answered:
  "snd (voice_chat (example_env\<lparr>whisper_transcribe := hears_nothing\<rparr>)
          example_request example_world)
     = Response 200 (ChatBody ''[Kein Audio erkannt]'' ''Guten Tag''
         (Some ''/audio/reply_20240101_000000.wav'') ''shopping'')
   \<and> history (fst (voice_chat (example_env\<lparr>whisper_transcribe := hears_nothing\<rparr>)
          example_request example_world))
     = Some (''2024-01-01T00:00:00|shopping|[Kein Audio erkannt]|Guten Tag|reply_20240101_000000.wav''
             @ [CHR 0x0A])"
  by (simp add: run_defs hears_nothing_def)

section \<open>The response to a failure of the upload or of the transcription stage\<close>

text \<open>
  Claim C9, as stated, where the disk is full when the scratch file is written: the message
  of the exception is in the body of the 500 response.
\<close>

theorem exception_message_returned_counterexample:
  "temp_audio_write
      (example_env\<lparr>temp_audio_write := Some (Exn ''OSError'' ''[Errno 28] No space left on device'')\<rparr>)
     = Some (Exn ''OSError'' ''[Errno 28] No space left on device'')
   \<and> snd (voice_chat
        (example_env\<lparr>temp_audio_write := Some (Exn ''OSError'' ''[Errno 28] No space left on device'')\<rparr>)
        example_request example_world)
     = Response 500 (ErrorBody (''Processing failed: '' @ ''[Errno 28] No space left on device''))"
  by (simp add: run_defs)

text \<open>
  Claim C9, amended. When saving the upload raises, or the transcription stage raises
  instead of returning, the response is 500 and its \<open>error\<close> is \<open>Processing failed: \<close>
  followed by the message of the exception; the same message is printed to the log.
\<close>

theorem hard_failure_response:
  assumes "save_upload env req w = (w1, r)"
      and "r = Inl e \<or> (\<exists>name. r = Inr name \<and> transcribe svc (files w1) name = Inl e)"
  shows "snd (voice_chat_with svc env req w)
           = Response 500 (ErrorBody (''Processing failed: '' @ exn_msg e))
         \<and> (''Request processing failed with error: '' @ exn_msg e)
             \<in> set (stdout (fst (voice_chat_with svc env req w)))"
  using assms(2)
proof
  assume "r = Inl e"
  with assms(1) have "save_upload env req w = (w1, Inl e)" by simp
  then show ?thesis
    by (simp add: voice_chat_with_upload_failed say_simps)
next
  assume "\<exists>name. r = Inr name \<and> transcribe svc (files w1) name = Inl e"
  then obtain name where "r = Inr name" and tr: "transcribe svc (files w1) name = Inl e"
    by blast
  with assms(1) have up: "save_upload env req w = (w1, Inr name)" by simp
  from voice_chat_with_transcribe_raised [OF up tr] show ?thesis by simp
qed

theorem hard_failure_response_witness:
  "save_upload
      (example_env\<lparr>temp_audio_write := Some (Exn ''OSError'' ''[Errno 28] No space left on device'')\<rparr>)
      example_request example_world
     = (example_world\<lparr>files := [''/tmp/tmpa.wav'' \<mapsto> []]\<rparr>,
        Inl (Exn ''OSError'' ''[Errno 28] No space left on device''))
   \<and> snd (voice_chat
        (example_env\<lparr>temp_audio_write := Some (Exn ''OSError'' ''[Errno 28] No space left on device'')\<rparr>)
        example_request example_world)
     = Response 500 (ErrorBody ''Processing failed: [Errno 28] No space left on device'')
   \<and> ''Request processing failed with error: [Errno 28] No space left on device''
       \<in> set (stdout (fst (voice_chat
        (example_env\<lparr>temp_audio_write := Some (Exn ''OSError'' ''[Errno 28] No space left on device'')\<rparr>)
        example_request example_world)))
   \<and> snd (voice_chat_with ((services_of example_env)\<lparr>transcribe := transcription_raises\<rparr>)
            example_env example_request example_world)
     = Response 500 (ErrorBody ''Processing failed: CUDA out of memory'')"
proof -
  let ?E = "example_env\<lparr>temp_audio_write := Some (Exn ''OSError'' ''[Errno 28] No space left on device'')\<rparr>"
  let ?e = "Exn ''OSError'' ''[Errno 28] No space left on device''"
  let ?w1 = "example_world\<lparr>files := [''/tmp/tmpa.wav'' \<mapsto> []]\<rparr>"
  have up: "save_upload ?E example_request example_world = (?w1, Inl ?e)"
    by (simp add: run_defs)
  have hyp: "Inl ?e = Inl ?e \<or> (\<exists>name. Inl ?e = Inr name
              \<and> transcribe (services_of ?E) (files ?w1) name = Inl ?e)"
    by simp
  let ?w2 = "example_world\<lparr>files := example_files\<rparr>"
  let ?svc = "(services_of example_env)\<lparr>transcribe := transcription_raises\<rparr>"
  let ?x = "Exn ''RuntimeError'' ''CUDA out of memory''"
  have up2: "save_upload example_env example_request example_world
               = (?w2, Inr ''/tmp/tmpa.wav'')"
    by (simp add: run_defs example_files_def)
  have hyp2: "Inr ''/tmp/tmpa.wav'' = Inl ?x \<or> (\<exists>name. Inr ''/tmp/tmpa.wav'' = Inr name
              \<and> transcribe ?svc (files ?w2) name = Inl ?x)"
    by (simp add: transcription_raises_def)
  show ?thesis
    using up hard_failure_response [OF up hyp] hard_failure_response [OF up2 hyp2]
    by (simp add: voice_chat_def)
qed

section \<open>The scratch file\<close>

text \<open>
  Once the upload is saved, the scratch file is removed on every path of the handler,
  whatever the three services return or raise.
\<close>

lemma scratch_file_removed:
  assumes up: "save_upload env req w = (w1, Inr name)"
  shows "files (fst (voice_chat_with svc env req w)) name = None"
proof (cases "transcribe svc (files w1) name")
  case (Inl e)
  from voice_chat_with_transcribe_raised [OF up Inl] show ?thesis by simp
next
  case (Inr t)
  show ?thesis
  proof (cases "py_strip t = []")
    case True
    from voice_chat_with_blank [OF up Inr True] show ?thesis by simp
  next
    case False
    show ?thesis
    proof (cases "build_prompt env (topic req) t")
      case (Inl e)
      from voice_chat_with_prompt_failed [OF up Inr False Inl] show ?thesis by simp
    next
      case (Inr full_prompt)
      from voice_chat_with_answered_ex [OF up \<open>transcribe svc (files w1) name = Inr t\<close> False Inr]
      show ?thesis by (auto simp: answer_files)
    qed
  qed
qed

text \<open>
  Claim C6 where the disk is full when the scratch file is written.
  \<open>NamedTemporaryFile(delete=False)\<close> has created the file, the \<open>with\<close> block is left by the
  exception, and the outer \<open>except\<close> answers 500 without removing the file: it is still
  there after the request.
\<close>

theorem scratch_file_left_behind:
  "files (fst (voice_chat
      (example_env\<lparr>temp_audio_write := Some (Exn ''OSError'' ''[Errno 28] No space left on device'')\<rparr>)
      example_request example_world)) ''/tmp/tmpa.wav'' = Some []
   \<and> status (snd (voice_chat
      (example_env\<lparr>temp_audio_write := Some (Exn ''OSError'' ''[Errno 28] No space left on device'')\<rparr>)
      example_request example_world)) = 500"
  by (simp add: run_defs)

section \<open>The history endpoint\<close>

text \<open>
  For a positive \<open>limit\<close> the slice \<open>lines[-limit:]\<close> is the last \<open>limit\<close> lines of the
  file, and the conversations returned are those of its lines that are not blank, in
  order, at most \<open>limit\<close> of them.
\<close>

lemma py_slice_from_last:
  "0 < limit \<Longrightarrow> py_slice_from (- limit) xs = drop (length xs - nat limit) xs"
  by (auto simp: py_slice_from_def Let_def max_def nat_diff_distrib' intro: arg_cong2 [where f = drop])

lemma parse_lines_length:
  "parse_lines json_loads ls acc = Inr cs \<Longrightarrow> length cs \<le> length acc + length ls"
  by (induction ls arbitrary: acc) (fastforce split: if_splits sum.splits)+

lemma get_history_positive:
  assumes "0 < limit" and "history w = Some contents" and "ls = readlines contents"
      and "get_history json_loads w limit = Conversations cs"
  shows "parse_lines json_loads (drop (length ls - nat limit) ls) [] = Inr cs
         \<and> int (length cs) \<le> limit"
proof -
  from assms have p: "parse_lines json_loads (drop (length ls - nat limit) ls) [] = Inr cs"
    by (simp add: get_history_def py_slice_from_last split: sum.splits)
  from parse_lines_length [OF p] assms(1) have "int (length cs) \<le> limit" by simp
  with p show ?thesis by simp
qed

text \<open>
  Claim C5 at \<open>limit = 0\<close>: \<open>lines[-0:]\<close> is the whole list, so every conversation of the
  file is returned, where at most 0 were asked for.
\<close>

theorem history_limit_zero:
  "get_history example_loads
     (example_world\<lparr>history := Some (''first'' @ [CHR 0x0A] @ ''second'' @ [CHR 0x0A])\<rparr>) 0
   = Conversations [''first'', ''second'']"
  by (simp add: get_history_def py_slice_from_def example_loads_def example_world_def
        readlines_def py_strip_def py_isspace_def)

section \<open>Requests with a transcript\<close>

text \<open>
  A request whose transcript is not empty and whose prompt can be built is answered
  with 200: the transcript that \<open>transcribe_audio\<close> returns is never blank, so the handler
  goes on to the reply.
\<close>

lemma voice_chat_answered:
  assumes "transcript env req w = Some t" and "t \<noteq> []"
      and "build_prompt env (topic req) t = Inr full_prompt"
      and "reply = (case ask_ollama env full_prompt ''llama3.1:8b'' ''http://localhost:11434'' 60 of
                      Inr r \<Rightarrow> r | Inl x \<Rightarrow> fallback_reply t)"
  shows "\<exists>w3. voice_chat env req w
                = (fst (answer (services_of env) env req t w3),
                   Response 200
                     (ChatBody t reply
                        (case snd (save_tts_audio env reply
                                     (''data/audio/'' @ ''reply_'' @ now_strftime env @ ''.wav'')
                                     ''de-DE-KatjaNeural'' True) of
                           None \<Rightarrow> Some (''/audio/'' @ ''reply_'' @ now_strftime env @ ''.wav'')
                         | Some e \<Rightarrow> None)
                        (topic req)))
              \<and> history w3 = history w"
proof -
  from assms(1) obtain w1 name where
    up: "save_upload env req w = (w1, Inr name)" and
    tr: "transcribe (services_of env) (files w1) name = Inr t"
    using transcript_services by blast
  from tr have "transcribe_audio env (files w1) name = Inr t" by (simp add: services_of_simps)
  from this assms(2) have nb: "py_strip t \<noteq> []" by (rule transcribe_audio_not_blank)
  from up have "history w1 = history w" using save_upload_keeps by blast
  with voice_chat_with_answered_ex [OF up tr nb assms(3)] assms(4) show ?thesis
    by (auto simp: voice_chat_def services_of_simps)
qed

text \<open>
  \<open>ask_ollama\<close> raises when the request raises (a refused connection, a timeout or
  anything else), when the status is not 200, and when the body is not JSON or has no
  string under \<open>response\<close>.
\<close>

lemma ask_ollama_failures:
  "requests_post env (base_url @ ''/api/generate'')
       \<lparr>payload_model = model, payload_prompt = prompt, payload_stream = False\<rparr> timeout = Inl x
     \<Longrightarrow> \<exists>e. ask_ollama env prompt model base_url timeout = Inl e"
  "requests_post env (base_url @ ''/api/generate'')
       \<lparr>payload_model = model, payload_prompt = prompt, payload_stream = False\<rparr> timeout = Inr resp
     \<Longrightarrow> status_code resp \<noteq> 200 \<or> isl (response_json resp)
         \<or> (\<exists>j. response_json resp = Inr j \<and> (\<forall>s. response_field j \<noteq> JStr s))
     \<Longrightarrow> \<exists>e. ask_ollama env prompt model base_url timeout = Inl e"
  by (auto simp: ask_ollama_def ask_ollama_try_def Let_def isl_def
      split: sum.splits json_field.splits)

text \<open>
  Claim C3. When the transcript \<open>t\<close> is not empty and \<open>ask_ollama\<close>, called with the
  prompt of the request, raises, the response has status 200, its \<open>user_text\<close> is \<open>t\<close> and
  its \<open>reply_text\<close> is the fallback string, a fixed text with \<open>t\<close> in it, unchanged,
  between quotes.
\<close>

theorem generation_failure_fallback:
  assumes "transcript env req w = Some t" and "t \<noteq> []"
      and "build_prompt env (topic req) t = Inr full_prompt"
      and "ask_ollama env full_prompt ''llama3.1:8b'' ''http://localhost:11434'' 60 = Inl e"
  shows "status (snd (voice_chat env req w)) = 200
         \<and> user_text (body (snd (voice_chat env req w))) = t
         \<and> reply_text (body (snd (voice_chat env req w))) = fallback_reply t
         \<and> fallback_reply t =
             ''Ich habe verstanden: '' @ [CHR 0x27] @ t @ [CHR 0x27]
             @ ''. Das ist interessant! (Ollama ist nicht verf'' @ [CHR 0xFC] @ ''gbar)''"
proof -
  have r: "fallback_reply t
             = (case ask_ollama env full_prompt ''llama3.1:8b'' ''http://localhost:11434'' 60 of
                  Inr r \<Rightarrow> r | Inl x \<Rightarrow> fallback_reply t)"
    using assms(4) by simp
  from voice_chat_answered [OF assms(1-3) r] show ?thesis
    by (auto simp: fallback_reply_def)
qed

theorem generation_failure_fallback_witness:
  "transcript (example_env\<lparr>requests_post := connection_refused\<rparr>) example_request example_world
     = Some ''Hallo''
   \<and> build_prompt (example_env\<lparr>requests_post := connection_refused\<rparr>) ''shopping'' ''Hallo''
     = Inr (format_prompt default_system_prompt ''shopping'' ''Hallo'')
   \<and> ask_ollama (example_env\<lparr>requests_post := connection_refused\<rparr>)
        (format_prompt default_system_prompt ''shopping'' ''Hallo'')
        ''llama3.1:8b'' ''http://localhost:11434'' 60
     = Inl (Exception ''Cannot connect to Ollama. Make sure Ollama is running on localhost:11434'')
   \<and> status (snd (voice_chat (example_env\<lparr>requests_post := connection_refused\<rparr>)
        example_request example_world)) = 200
   \<and> reply_text (body (snd (voice_chat (example_env\<lparr>requests_post := connection_refused\<rparr>)
        example_request example_world)))
     = ''Ich habe verstanden: '' @ [CHR 0x27] @ ''Hallo'' @ [CHR 0x27]
        @ ''. Das ist interessant! (Ollama ist nicht verf'' @ [CHR 0xFC] @ ''gbar)''"
proof -
  let ?E = "example_env\<lparr>requests_post := connection_refused\<rparr>"
  have t: "transcript ?E example_request example_world = Some ''Hallo''"
    by (simp add: run_defs)
  have ne: "''Hallo'' \<noteq> []" by simp
  have p: "build_prompt ?E (topic example_request) ''Hallo''
             = Inr (format_prompt default_system_prompt ''shopping'' ''Hallo'')"
    by (simp add: build_prompt_def example_env_def example_request_def)
  have a: "ask_ollama ?E (format_prompt default_system_prompt ''shopping'' ''Hallo'')
        ''llama3.1:8b'' ''http://localhost:11434'' 60
     = Inl (Exception ''Cannot connect to Ollama. Make sure Ollama is running on localhost:11434'')"
    by (simp add: ask_ollama_def ask_ollama_try_def connection_refused_def example_env_def
          is_ConnectionError_def Exception_def Let_def)
  from generation_failure_fallback [OF t ne p a] t p a show ?thesis
    by (simp add: example_request_def)
qed

section \<open>Failure of speech synthesis\<close>

text \<open>The transcript, the prompt and the reply do not depend on the speech engines.\<close>

lemma save_upload_tts_independent:
  "save_upload (env\<lparr>mkdir_audio_dir := m, PYTTSX3_AVAILABLE := a, pyttsx3_save := f\<rparr>) req w
     = save_upload env req w"
  by (simp add: save_upload_def Let_def split: sum.splits option.splits)

lemma transcribe_audio_tts_independent:
  "transcribe_audio (env\<lparr>mkdir_audio_dir := m, PYTTSX3_AVAILABLE := a, pyttsx3_save := f\<rparr>) fs p
     = transcribe_audio env fs p"
  by (simp add: transcribe_audio_def transcribe_with_library_def
        transcribe_with_library_try_def Let_def split: sum.splits option.splits)

lemma transcript_tts_independent:
  "transcript (env\<lparr>mkdir_audio_dir := m, PYTTSX3_AVAILABLE := a, pyttsx3_save := f\<rparr>) req w
     = transcript env req w"
  by (simp add: transcript_def save_upload_tts_independent transcribe_audio_tts_independent
      split: prod.splits sum.splits)

lemma ask_ollama_tts_independent:
  "ask_ollama (env\<lparr>mkdir_audio_dir := m, PYTTSX3_AVAILABLE := a, pyttsx3_save := f\<rparr>)
     = ask_ollama env"
  by (simp add: ask_ollama_def ask_ollama_try_def fun_eq_iff Let_def
      split: sum.splits json_field.splits)

lemma build_prompt_tts_independent:
  "build_prompt (env\<lparr>mkdir_audio_dir := m, PYTTSX3_AVAILABLE := a, pyttsx3_save := f\<rparr>)
     = build_prompt env"
  by (simp add: build_prompt_def fun_eq_iff split: option.splits sum.splits)

text \<open>
  Claim C4. When the transcript \<open>t\<close> is not empty and \<open>save_tts_audio\<close>, called with the
  reply of the request, raises, the response has status 200 and a null \<open>tts_url\<close>, and its
  \<open>user_text\<close>, \<open>reply_text\<close> and \<open>topic\<close> are those of the same request served with an audio
  directory that can be created and a working offline engine.
\<close>

theorem synthesis_failure_null_url:
  assumes "transcript env req w = Some t" and "t \<noteq> []"
      and "build_prompt env (topic req) t = Inr full_prompt"
      and "reply = (case ask_ollama env full_prompt
                           ''llama3.1:8b'' ''http://localhost:11434'' 60 of
                      Inr r \<Rightarrow> r | Inl x \<Rightarrow> fallback_reply t)"
      and "snd (save_tts_audio env reply (''data/audio/'' @ ''reply_'' @ now_strftime env @ ''.wav'')
                  ''de-DE-KatjaNeural'' True) = Some e"
  shows "snd (voice_chat env req w) = Response 200 (ChatBody t reply None (topic req))
         \<and> snd (voice_chat (env\<lparr>mkdir_audio_dir := None, PYTTSX3_AVAILABLE := True,
                                 pyttsx3_save := (\<lambda>k. None)\<rparr>) req w)
             = Response 200
                 (ChatBody t reply (Some (''/audio/'' @ ''reply_'' @ now_strftime env @ ''.wav''))
                    (topic req))"
proof -
  let ?env' = "env\<lparr>mkdir_audio_dir := None, PYTTSX3_AVAILABLE := True,
                     pyttsx3_save := (\<lambda>k. None)\<rparr>"
  from voice_chat_answered [OF assms(1-4)] assms(5)
  have failed: "snd (voice_chat env req w) = Response 200 (ChatBody t reply None (topic req))"
    by auto
  have t': "transcript ?env' req w = Some t"
    using assms(1) by (simp add: transcript_tts_independent)
  have p': "build_prompt ?env' (topic req) t = Inr full_prompt"
    using assms(3) by (simp add: build_prompt_tts_independent)
  have r': "reply = (case ask_ollama ?env' full_prompt
                           ''llama3.1:8b'' ''http://localhost:11434'' 60 of
                      Inr r \<Rightarrow> r | Inl x \<Rightarrow> fallback_reply t)"
    using assms(4) by (simp add: ask_ollama_tts_independent)
  have s': "snd (save_tts_audio ?env' reply
                   (''data/audio/'' @ ''reply_'' @ now_strftime ?env' @ ''.wav'')
                   ''de-DE-KatjaNeural'' True) = None"
    by (simp add: save_tts_audio_def)
  from voice_chat_answered [OF t' assms(2) p' r'] s'
  have worked: "snd (voice_chat ?env' req w)
             = Response 200
                 (ChatBody t reply (Some (''/audio/'' @ ''reply_'' @ now_strftime env @ ''.wav''))
                    (topic req))"
    by auto
  from failed worked show ?thesis by simp
qed

theorem synthesis_failure_null_url_witness:
  "transcript (example_env\<lparr>PYTTSX3_AVAILABLE := False, EDGE_TTS_AVAILABLE := False\<rparr>)
      example_request example_world = Some ''Hallo''
   \<and> snd (save_tts_audio (example_env\<lparr>PYTTSX3_AVAILABLE := False, EDGE_TTS_AVAILABLE := False\<rparr>)
        ''Guten Tag'' ''data/audio/reply_20240101_000000.wav'' ''de-DE-KatjaNeural'' True)
       = Some (Exception ''No TTS engine available'')
   \<and> snd (voice_chat (example_env\<lparr>PYTTSX3_AVAILABLE := False, EDGE_TTS_AVAILABLE := False\<rparr>)
        example_request example_world)
       = Response 200 (ChatBody ''Hallo'' ''Guten Tag'' None ''shopping'')
   \<and> snd (voice_chat
        (example_env\<lparr>PYTTSX3_AVAILABLE := False, EDGE_TTS_AVAILABLE := False,
                       mkdir_audio_dir := None, PYTTSX3_AVAILABLE := True,
                       pyttsx3_save := (\<lambda>k. None)\<rparr>)
        example_request example_world)
       = Response 200 (ChatBody ''Hallo'' ''Guten Tag''
           (Some ''/audio/reply_20240101_000000.wav'') ''shopping'')"
proof -
  let ?E = "example_env\<lparr>PYTTSX3_AVAILABLE := False, EDGE_TTS_AVAILABLE := False\<rparr>"
  have t: "transcript ?E example_request example_world = Some ''Hallo''"
    by (simp add: run_defs)
  have ne: "''Hallo'' \<noteq> []" by simp
  have p: "build_prompt ?E (topic example_request) ''Hallo''
             = Inr (format_prompt default_system_prompt ''shopping'' ''Hallo'')"
    by (simp add: build_prompt_def example_env_def example_request_def)
  have r: "''Guten Tag'' = (case ask_ollama ?E
                              (format_prompt default_system_prompt ''shopping'' ''Hallo'')
                              ''llama3.1:8b'' ''http://localhost:11434'' 60 of
                      Inr r \<Rightarrow> r | Inl x \<Rightarrow> fallback_reply ''Hallo'')"
    by (simp add: run_defs)
  have s: "snd (save_tts_audio ?E ''Guten Tag''
                  (''data/audio/'' @ ''reply_'' @ now_strftime ?E @ ''.wav'')
                  ''de-DE-KatjaNeural'' True) = Some (Exception ''No TTS engine available'')"
    by (simp add: run_defs)
  from synthesis_failure_null_url [OF t ne p r s] t s show ?thesis
    by (simp add: example_request_def example_env_def)
qed

section \<open>The history file\<close>

text \<open>
  Claim C2, as stated, where the history file cannot be written: the clip is transcribed
  as \<open>Hallo\<close> and the request answered with 200, and no record is appended.
\<close>

theorem history_write_failure_counterexample:
  "transcript (example_env\<lparr>history_write := Some (Exn ''OSError'' ''[Errno 28] No space left on device'')\<rparr>)
      example_request example_world = Some ''Hallo''
   \<and> status (snd (voice_chat
        (example_env\<lparr>history_write := Some (Exn ''OSError'' ''[Errno 28] No space left on device'')\<rparr>)
        example_request example_world)) = 200
   \<and> history (fst (voice_chat
        (example_env\<lparr>history_write := Some (Exn ''OSError'' ''[Errno 28] No space left on device'')\<rparr>)
        example_request example_world)) = history example_world"
  by (simp add: run_defs)

text \<open>Without a transcript, or with an empty one, the history file is left as it was.\<close>

lemma voice_chat_history_unchanged:
  assumes "transcript env req w = None \<or> transcript env req w = Some []"
  shows "history (fst (voice_chat env req w)) = history w"
proof -
  obtain w1 r where up: "save_upload env req w = (w1, r)" by (cases "save_upload env req w")
  then have h: "history w1 = history w" using save_upload_keeps by blast
  show ?thesis
  proof (cases r)
    case (Inl e)
    with up have "save_upload env req w = (w1, Inl e)" by simp
    from voice_chat_with_upload_failed [OF this] h show ?thesis
      by (simp add: voice_chat_def say_simps)
  next
    case (Inr name)
    with up have up': "save_upload env req w = (w1, Inr name)" by simp
    obtain t where tr: "transcribe_audio env (files w1) name = Inr t"
      using transcribe_audio_returns by blast
    with up' have "transcript env req w = Some t" by (simp add: transcript_def)
    with assms have "t = []" by simp
    then have blank: "py_strip t = []" by (simp add: py_strip_def)
    from tr have "transcribe (services_of env) (files w1) name = Inr t"
      by (simp add: services_of_simps)
    from voice_chat_with_blank [OF up' this blank] h show ?thesis
      by (simp add: voice_chat_def)
  qed
qed

text \<open>
  When the system prompt exists and cannot be read, a request with a transcript is
  answered with 500 and the history file is left as it was.
\<close>

lemma unreadable_prompt_response:
  assumes "transcript env req w = Some t" and "t \<noteq> []"
      and "system_prompt_file env = Some (Inl e)"
  shows "snd (voice_chat env req w)
           = Response 500 (ErrorBody (''Processing failed: '' @ exn_msg e))
         \<and> history (fst (voice_chat env req w)) = history w"
proof -
  from assms(1) obtain w1 name where
    up: "save_upload env req w = (w1, Inr name)" and
    tr: "transcribe (services_of env) (files w1) name = Inr t"
    using transcript_services by blast
  from tr have "transcribe_audio env (files w1) name = Inr t" by (simp add: services_of_simps)
  from this assms(2) have nb: "py_strip t \<noteq> []" by (rule transcribe_audio_not_blank)
  from assms(3) have p: "build_prompt env (topic req) t = Inl e" by (simp add: build_prompt_Inl)
  from up have "history w1 = history w" using save_upload_keeps by blast
  with voice_chat_with_prompt_failed [OF up tr nb p] show ?thesis
    by (simp add: voice_chat_def)
qed

text \<open>
  Claim C2, amended. For a request whose transcript is not the marker
  \<open>[Kein Audio erkannt]\<close> and whose prompt can be built (\<open>prompt t\<close> for the transcript \<open>t\<close>),
  the handler appends a record to the history file if and only if the transcript is not
  empty and writing the file does not fail; otherwise the file is left as it was. What
  is appended is the record of the request and a newline: its reply is the fallback when
  \<open>ask_ollama\<close> raises, its \<open>tts_file\<close> is null when \<open>save_tts_audio\<close> raises.
\<close>

theorem history_record_written:
  assumes "transcript env req w \<noteq> Some ''[Kein Audio erkannt]''"
      and "\<And>t. build_prompt env (topic req) t = Inr (prompt t)"
  shows "history (fst (voice_chat env req w)) =
     (case transcript env req w of
        None \<Rightarrow> history w
      | Some t \<Rightarrow>
          if t \<noteq> [] \<and> history_write env = None
          then Some (history_text w @
                 json_dumps env
                    \<lparr>timestamp = now_isoformat env, conv_topic = topic req, conv_user_text = t,
                     conv_reply_text =
                       (case ask_ollama env (prompt t)
                               ''llama3.1:8b'' ''http://localhost:11434'' 60 of
                          Inr r \<Rightarrow> r | Inl e \<Rightarrow> fallback_reply t),
                     tts_file =
                       (case snd (save_tts_audio env
                                (case ask_ollama env (prompt t)
                                        ''llama3.1:8b'' ''http://localhost:11434'' 60 of
                                   Inr r \<Rightarrow> r | Inl e \<Rightarrow> fallback_reply t)
                                (''data/audio/'' @ ''reply_'' @ now_strftime env @ ''.wav'')
                                ''de-DE-KatjaNeural'' True) of
                          None \<Rightarrow> Some (''reply_'' @ now_strftime env @ ''.wav'')
                        | Some e \<Rightarrow> None)\<rparr>
                  @ [CHR 0x0A])
          else history w)"
proof (cases "transcript env req w")
  case None
  then show ?thesis using voice_chat_history_unchanged [of env req w] by simp
next
  case (Some t)
  show ?thesis
  proof (cases "t = []")
    case True
    with Some show ?thesis using voice_chat_history_unchanged [of env req w] by simp
  next
    case False
    have p: "build_prompt env (topic req) t = Inr (prompt t)" by (rule assms(2))
    from voice_chat_answered [OF Some False p refl] obtain w3 where
      eq: "fst (voice_chat env req w) = fst (answer (services_of env) env req t w3)" and
      h: "history w3 = history w" by auto
    from h have ht: "history_text w3 = history_text w" by (simp add: history_text_def)
    from eq have "history (fst (voice_chat env req w))
                    = history (fst (answer (services_of env) env req t w3))" by simp
    with Some False h ht show ?thesis
      by (simp add: answer_history [OF p] services_of_simps split: option.splits)
  qed
qed

theorem history_record_written_witness:
  "transcript (example_env\<lparr>requests_post := connection_refused, PYTTSX3_AVAILABLE := False,
                            EDGE_TTS_AVAILABLE := False\<rparr>) example_request example_world
     = Some ''Hallo''
   \<and> history (fst (voice_chat
        (example_env\<lparr>requests_post := connection_refused, PYTTSX3_AVAILABLE := False,
                       EDGE_TTS_AVAILABLE := False\<rparr>) example_request example_world))
     = Some (''2024-01-01T00:00:00|shopping|Hallo|'' @ fallback_reply ''Hallo'' @ ''|None''
             @ [CHR 0x0A])
   \<and> transcript (example_env\<lparr>whisper_import := Some (Exn ''ModuleNotFoundError'' ''No module named whisper'')\<rparr>)
        example_request example_world = Some []
   \<and> history (fst (voice_chat (example_env\<lparr>whisper_import := Some (Exn ''ModuleNotFoundError'' ''No module named whisper'')\<rparr>)
        example_request example_world)) = None"
proof -
  let ?E = "example_env\<lparr>requests_post := connection_refused, PYTTSX3_AVAILABLE := False,
                       EDGE_TTS_AVAILABLE := False\<rparr>"
  let ?F = "example_env\<lparr>whisper_import := Some (Exn ''ModuleNotFoundError'' ''No module named whisper'')\<rparr>"
  have tE: "transcript ?E example_request example_world = Some ''Hallo''"
    by (simp add: run_defs)
  have tF: "transcript ?F example_request example_world = Some []"
    by (simp add: run_defs)
  have mE: "transcript ?E example_request example_world \<noteq> Some ''[Kein Audio erkannt]''"
    using tE by simp
  have mF: "transcript ?F example_request example_world \<noteq> Some ''[Kein Audio erkannt]''"
    using tF by simp
  have pE: "build_prompt ?E (topic example_request) t
              = Inr (format_prompt default_system_prompt ''shopping'' t)" for t
    by (simp add: build_prompt_def example_env_def example_request_def)
  have pF: "build_prompt ?F (topic example_request) t
              = Inr (format_prompt default_system_prompt ''shopping'' t)" for t
    by (simp add: build_prompt_def example_env_def example_request_def)
  from history_record_written [of ?E example_request example_world
         "format_prompt default_system_prompt ''shopping''", OF mE pE]
       history_record_written [of ?F example_request example_world
         "format_prompt default_system_prompt ''shopping''", OF mF pF]
       tE tF
  show ?thesis
    by (simp add: ask_ollama_def ask_ollama_try_def connection_refused_def Let_def
          is_ConnectionError_def save_tts_audio_def save_tts_online_def Exception_def
          example_env_def example_request_def example_world_def example_dumps_def
          history_text_def fmt_opt_def)
qed

section \<open>The order of the speech engines\<close>

text \<open>
  Claim C8, as stated, where the offline engine fails once and the networked engine
  fails: \<open>save_tts_audio\<close> calls the offline engine a second time, which succeeds, and
  returns normally; the response carries the audio reference.
\<close>

theorem offline_retry_counterexample:
  "save_tts_audio
      (example_env\<lparr>pyttsx3_save := fails_once,
                     edge_tts_save := Some (Exn ''ClientConnectorError'' ''Cannot connect to host'')\<rparr>)
      ''Guten Tag'' ''data/audio/reply_20240101_000000.wav'' ''de-DE-KatjaNeural'' True
     = ([Offline, Networked, Offline], None)
   \<and> tts_url (body (snd (voice_chat
        (example_env\<lparr>pyttsx3_save := fails_once,
                       edge_tts_save := Some (Exn ''ClientConnectorError'' ''Cannot connect to host'')\<rparr>)
        example_request example_world)))
     = Some ''/audio/reply_20240101_000000.wav''"
  by (simp add: run_defs fails_once_def)

lemma save_tts_audio_args:
  "snd (save_tts_audio env txt output_path voice p)
     = snd (save_tts_audio env txt' output_path' voice' p)"
  by (simp add: save_tts_audio_def)

text \<open>
  Claim C8, amended. \<open>save_tts_audio\<close> first creates the directory of the output file; if
  that raises, it raises at once and calls no engine. Otherwise, with \<open>prefer_offline\<close>,
  it calls the offline engine first when it is available; after its failure it calls
  the networked engine when that is available; after the failure or in the absence of
  the networked engine it calls the offline engine once more, and the outcome of that
  call is its own. It raises exactly when the directory cannot be created, every call
  it makes fails, or no engine is available. The handler catches the exception: a
  request that reaches synthesis is answered with 200, with a null \<open>tts_url\<close> when
  synthesis failed.
\<close>

theorem save_tts_audio_fallback_order:
  "(mkdir_audio_dir env = Some x
      \<longrightarrow> save_tts_audio env txt output_path voice True = ([], Some x))
   \<and> (mkdir_audio_dir env = None \<and> PYTTSX3_AVAILABLE env
        \<longrightarrow> take 1 (fst (save_tts_audio env txt output_path voice True)) = [Offline])
   \<and> (mkdir_audio_dir env = None \<and> PYTTSX3_AVAILABLE env \<and> pyttsx3_save env 0 \<noteq> None
         \<and> EDGE_TTS_AVAILABLE env
        \<longrightarrow> take 2 (fst (save_tts_audio env txt output_path voice True)) = [Offline, Networked])
   \<and> (mkdir_audio_dir env = None \<and> PYTTSX3_AVAILABLE env \<and> pyttsx3_save env 0 \<noteq> None
         \<and> (EDGE_TTS_AVAILABLE env \<longrightarrow> edge_tts_save env \<noteq> None)
        \<longrightarrow> last (fst (save_tts_audio env txt output_path voice True)) = Offline
            \<and> snd (save_tts_audio env txt output_path voice True) = pyttsx3_save env 1)
   \<and> (snd (save_tts_audio env txt output_path voice True) \<noteq> None \<longleftrightarrow>
        mkdir_audio_dir env \<noteq> None
        \<or> (if PYTTSX3_AVAILABLE env
            then pyttsx3_save env 0 \<noteq> None
                 \<and> (EDGE_TTS_AVAILABLE env \<longrightarrow> edge_tts_save env \<noteq> None)
                 \<and> pyttsx3_save env 1 \<noteq> None
            else (EDGE_TTS_AVAILABLE env \<longrightarrow> edge_tts_save env \<noteq> None)))
   \<and> (transcript env req w = Some t \<and> t \<noteq> []
         \<and> build_prompt env (topic req) t = Inr full_prompt
        \<longrightarrow> status (snd (voice_chat env req w)) = 200
            \<and> (snd (save_tts_audio env txt output_path voice True) \<noteq> None
                 \<longrightarrow> tts_url (body (snd (voice_chat env req w))) = None))"
proof (intro conjI impI)
  assume "mkdir_audio_dir env = Some x"
  then show "save_tts_audio env txt output_path voice True = ([], Some x)"
    by (simp add: save_tts_audio_def)
next
  assume "mkdir_audio_dir env = None \<and> PYTTSX3_AVAILABLE env"
  then show "take 1 (fst (save_tts_audio env txt output_path voice True)) = [Offline]"
    by (simp add: save_tts_audio_def save_tts_online_def split: option.splits)
next
  assume "mkdir_audio_dir env = None \<and> PYTTSX3_AVAILABLE env \<and> pyttsx3_save env 0 \<noteq> None
         \<and> EDGE_TTS_AVAILABLE env"
  then show "take 2 (fst (save_tts_audio env txt output_path voice True)) = [Offline, Networked]"
    by (auto simp: save_tts_audio_def save_tts_online_def split: option.splits)
next
  assume a: "mkdir_audio_dir env = None \<and> PYTTSX3_AVAILABLE env \<and> pyttsx3_save env 0 \<noteq> None
         \<and> (EDGE_TTS_AVAILABLE env \<longrightarrow> edge_tts_save env \<noteq> None)"
  then show "last (fst (save_tts_audio env txt output_path voice True)) = Offline"
    by (auto simp: save_tts_audio_def save_tts_online_def split: option.splits)
  from a show "snd (save_tts_audio env txt output_path voice True) = pyttsx3_save env 1"
    by (auto simp: save_tts_audio_def save_tts_online_def offline_calls_def
        split: option.splits)
next
  show "snd (save_tts_audio env txt output_path voice True) \<noteq> None \<longleftrightarrow>
        mkdir_audio_dir env \<noteq> None
        \<or> (if PYTTSX3_AVAILABLE env
            then pyttsx3_save env 0 \<noteq> None
                 \<and> (EDGE_TTS_AVAILABLE env \<longrightarrow> edge_tts_save env \<noteq> None)
                 \<and> pyttsx3_save env 1 \<noteq> None
            else (EDGE_TTS_AVAILABLE env \<longrightarrow> edge_tts_save env \<noteq> None))"
    by (auto simp: save_tts_audio_def save_tts_online_def offline_calls_def
        split: option.splits)
next
  assume a: "transcript env req w = Some t \<and> t \<noteq> []
         \<and> build_prompt env (topic req) t = Inr full_prompt"
  then have t: "transcript env req w = Some t" and ne: "t \<noteq> []"
    and p: "build_prompt env (topic req) t = Inr full_prompt" by simp_all
  from voice_chat_answered [OF t ne p refl]
  show "status (snd (voice_chat env req w)) = 200" by auto
  assume f: "snd (save_tts_audio env txt output_path voice True) \<noteq> None"
  have same: "snd (save_tts_audio env x y ''de-DE-KatjaNeural'' True)
                = snd (save_tts_audio env txt output_path voice True)" for x y
    by (rule save_tts_audio_args)
  from voice_chat_answered [OF t ne p refl] f
  show "tts_url (body (snd (voice_chat env req w))) = None"
    by (auto simp: same split: option.splits)
qed

theorem save_tts_audio_fallback_order_witness:
  "save_tts_audio
      (example_env\<lparr>pyttsx3_save := always_fails,
                     edge_tts_save := Some (Exn ''ClientConnectorError'' ''Cannot connect to host'')\<rparr>)
      ''Guten Tag'' ''data/audio/reply_20240101_000000.wav'' ''de-DE-KatjaNeural'' True
     = ([Offline, Networked, Offline], Some (Exn ''RuntimeError'' ''no audio device''))
   \<and> save_tts_audio
      (example_env\<lparr>mkdir_audio_dir := Some (Exn ''FileExistsError'' ''[Errno 17] File exists'')\<rparr>)
      ''Guten Tag'' ''data/audio/reply_20240101_000000.wav'' ''de-DE-KatjaNeural'' True
     = ([], Some (Exn ''FileExistsError'' ''[Errno 17] File exists''))
   \<and> transcript
        (example_env\<lparr>pyttsx3_save := always_fails,
                       edge_tts_save := Some (Exn ''ClientConnectorError'' ''Cannot connect to host'')\<rparr>)
        example_request example_world = Some ''Hallo''
   \<and> snd (voice_chat
        (example_env\<lparr>pyttsx3_save := always_fails,
                       edge_tts_save := Some (Exn ''ClientConnectorError'' ''Cannot connect to host'')\<rparr>)
        example_request example_world)
     = Response 200 (ChatBody ''Hallo'' ''Guten Tag'' None ''shopping'')"
  using save_tts_audio_fallback_order
     [of "example_env\<lparr>pyttsx3_save := always_fails,
                       edge_tts_save := Some (Exn ''ClientConnectorError'' ''Cannot connect to host'')\<rparr>"
         "Exn ''FileExistsError'' ''[Errno 17] File exists''"
         "''Guten Tag''" "''data/audio/reply_20240101_000000.wav''" "''de-DE-KatjaNeural''"
         example_request example_world "''Hallo''"
         "format_prompt default_system_prompt ''shopping'' ''Hallo''"]
    save_tts_audio_fallback_order
     [of "example_env\<lparr>mkdir_audio_dir := Some (Exn ''FileExistsError'' ''[Errno 17] File exists'')\<rparr>"
         "Exn ''FileExistsError'' ''[Errno 17] File exists''"
         "''Guten Tag''" "''data/audio/reply_20240101_000000.wav''" "''de-DE-KatjaNeural''"
         example_request example_world "''Hallo''"
         "format_prompt default_system_prompt ''shopping'' ''Hallo''"]
  by (simp add: run_defs always_fails_def)

end
